theory Spec2Isabelle
  imports Complex_Main
begin

section \<open>Python values, exceptions and keyword calls\<close>

text \<open>
  The phase plane analyzer of BrainPy (\<^verbatim>\<open>brainpy/dynamics/phase_plane_analyzer.py\<close>) is
  Python code over dictionaries, tuples and numpy arrays. A Python float is modelled by
  \<open>pyfloat\<close>: a real number or one of the three special values of IEEE arithmetic.
  Rounding and overflow of finite values are not modelled; the rules for the special
  values are the IEEE ones. A numpy array is represented by the nested sequence of its
  entries (what \<^verbatim>\<open>tolist()\<close> gives), so \<^verbatim>\<open>np.array\<close> keeps the nesting of its argument.
\<close>

datatype pyfloat = Fin real | PInf | NInf | NaN

datatype pyval =
    PNone
  | PNum pyfloat
  | PBool bool
  | PStr string
  | PSeq "pyval list"
  | PDict "(string \<times> pyval) list"

text \<open>What CPython reports when the arguments of a call do not fit the signature.\<close>

datatype type_error =
    UnexpectedKeyword string
  | MissingArguments "string list"
  | NoLen
  | NotSubscriptable
  | OtherTypeError

datatype exn =
    ModelUseError string
  | TypeError type_error
  | ValueError string
  | AttributeError
  | IndexError
  | KeyError string
  | NotImplementedError
  | KeyboardInterrupt
  | OtherException string

text \<open>
  The parameters of a Python function after \<^verbatim>\<open>self\<close>: each name with the flag "has a
  default", and whether the function ends in \<^verbatim>\<open>**kwargs\<close>.
\<close>

record signature =
  sig_params :: "(string \<times> bool) list"
  sig_var_kw :: bool

text \<open>
  A call with keyword arguments only: a keyword that names no parameter is an error
  unless the function takes \<^verbatim>\<open>**kwargs\<close>; then every parameter without a default must
  have been given.
\<close>

definition bind_keywords :: "signature \<Rightarrow> string list \<Rightarrow> exn option" where
  "bind_keywords sg kws =
     (case filter (\<lambda>k. k \<notin> set (map fst (sig_params sg)) \<and> \<not> sig_var_kw sg) kws of
        k # _ \<Rightarrow> Some (TypeError (UnexpectedKeyword k))
      | [] \<Rightarrow>
          (case filter (\<lambda>p. p \<notin> set kws)
                  (map fst (filter (\<lambda>(p, has_default). \<not> has_default) (sig_params sg))) of
             [] \<Rightarrow> None
           | ps \<Rightarrow> Some (TypeError (MissingArguments ps))))"

text \<open>\<^verbatim>\<open>len(d)\<close> of a dictionary counts its distinct keys; \<^verbatim>\<open>d.get(k, default)\<close>.\<close>

definition dict_len :: "(string \<times> pyval) list \<Rightarrow> nat" where
  "dict_len d = length (remdups (map fst d))"

definition dict_get :: "(string \<times> pyval) list \<Rightarrow> string \<Rightarrow> pyval \<Rightarrow> pyval" where
  "dict_get d k dflt = (case map_of d k of Some v \<Rightarrow> v | None \<Rightarrow> dflt)"

text \<open>Python's truth value of an object, as \<^verbatim>\<open>if not x\<close> reads it.\<close>

fun truthy :: "pyval \<Rightarrow> bool" where
  "truthy PNone = False"
| "truthy (PNum (Fin r)) = (r \<noteq> 0)"
| "truthy (PNum _) = True"
| "truthy (PBool b) = b"
| "truthy (PStr s) = (s \<noteq> [])"
| "truthy (PSeq xs) = (xs \<noteq> [])"
| "truthy (PDict d) = (d \<noteq> [])"

section \<open>PhasePlaneAnalyzer: construction\<close>

text \<open>
  The model argument is a \<^verbatim>\<open>NeuType\<close> (of which the constructor reads \<^verbatim>\<open>name\<close> and the
  keys of \<^verbatim>\<open>step_scopes\<close>) or some other object.
\<close>

record neutype =
  name :: string
  step_scopes :: "string list"

datatype model_arg = NeuType neutype | NotNeuType

text \<open>\<^verbatim>\<open>self.options\<close>, the \<^verbatim>\<open>DictPlus\<close> filled at lines 128 to 138.\<close>

record options =
  resolution :: pyval
  lim_scale :: pyval
  sympy_solver_timeout :: pyval
  escape_sympy_solver :: pyval
  shgo_args :: pyval
  show_shgo :: pyval
  disturb :: pyval
  fl_tol :: pyval
  xl_tol :: pyval

definition read_options :: "(string \<times> pyval) list \<Rightarrow> options" where
  "read_options d =
     \<lparr> resolution = dict_get d ''resolution'' (PNum (Fin (1 / 10))),
       lim_scale = dict_get d ''lim_scale'' (PNum (Fin (105 / 100))),
       sympy_solver_timeout = dict_get d ''sympy_solver_timeout'' (PNum (Fin 5)),
       escape_sympy_solver = dict_get d ''escape_sympy_solver'' (PBool False),
       shgo_args = dict_get d ''shgo_args'' (PDict []),
       show_shgo = dict_get d ''show_shgo'' (PBool False),
       disturb = dict_get d ''disturb'' (PNum (Fin (1 / 10000))),
       fl_tol = dict_get d ''fl_tol'' (PNum (Fin (1 / 1000000))),
       xl_tol = dict_get d ''xl_tol'' (PNum (Fin (1 / 10000))) \<rparr>"

text \<open>
  What the constructor hands to an analyzer class, and the keyword names it uses in the
  call. \<^verbatim>\<open>PhasePlane1DAnalyzer.__init__\<close> and \<^verbatim>\<open>PhasePlane2DAnalyzer.__init__\<close> take
  \<^verbatim>\<open>*args, **kwargs\<close> and pass them on to the constructor of their base class in
  \<^verbatim>\<open>brainpy/dynamics/base.py\<close>. That file is not part of the sources at hand, so the
  base constructor is a parameter: its signature \<open>base_sig\<close>, which decides whether the
  keywords bind, and what it builds from the arguments once they are bound
  (\<open>build_1d\<close>, \<open>build_2d\<close>: the grids, the equation groups and the trajectory network,
  or an exception).
\<close>

record ctor_args =
  arg_model :: neutype
  arg_vars :: "(string \<times> pyval) list"
  arg_vars_fixed :: "(string \<times> pyval) list"
  arg_pars_update :: "(string \<times> pyval) list"
  arg_options :: options

record ('a, 'b) base_classes =
  base_sig :: signature
  build_1d :: "ctor_args \<Rightarrow> exn + 'a"
  build_2d :: "ctor_args \<Rightarrow> exn + 'b"

datatype ('a, 'b) analyzer = Analyzer1D 'a | Analyzer2D 'b

text \<open>The events of a construction that the claims speak about: an analyzer class is called.\<close>

datatype event = Call1DAnalyzer | Call2DAnalyzer

record ('a, 'b) phase_plane_analyzer =
  self_model :: neutype
  self_target_vars :: "(string \<times> pyval) list"
  self_fixed_vars :: "(string \<times> pyval) list"
  self_pars_update :: "(string \<times> pyval) list"
  self_options :: options
  self_analyzer :: "('a, 'b) analyzer"

definition msg_model :: string where
  "msg_model = ''Phase plane analysis only support neuron type model.''"

definition msg_target_vars :: string where
  \<open>msg_target_vars = ''"target_vars" must a dict with the format of: '' @
     ''{"Variable A": [A_min, A_max], "Variable B": [B_min, B_max]}''\<close>

definition msg_fixed_vars :: string where
  \<open>msg_fixed_vars = ''"fixed_vars" must be a dict with the format of: '' @
     ''{"Variable A": A_value, "Variable B": B_value}''\<close>

definition msg_pars_update :: string where
  \<open>msg_pars_update = ''"pars_update" must be a dict with the format of: '' @
     ''{"Par A": A_value, "Par B": B_value}''\<close>

definition msg_invalid_par :: "string \<Rightarrow> string \<Rightarrow> string" where
  \<open>msg_invalid_par key model_name =
     ''"'' @ key @ ''" is not a valid parameter in "'' @ model_name @ ''" model.''\<close>

definition msg_dimension :: string where
  \<open>msg_dimension = ''BrainPy only support 1D/2D phase plane analysis. '' @
     ''Or, you can set "fixed_vars" to fix other variables, '' @
     ''then make 1D/2D phase plane analysis.''\<close>

text \<open>
  The spec's \<open>UnsupportedDimensionality\<close> is the \<^verbatim>\<open>ModelUseError\<close> of the last branch
  of the constructor (lines 153 to 156).
\<close>

definition UnsupportedDimensionality :: exn where
  "UnsupportedDimensionality = ModelUseError msg_dimension"

text \<open>Lines 107 to 112 and 115 to 119: \<^verbatim>\<open>None\<close> stands for the empty dictionary.\<close>

definition dict_or_empty :: "string \<Rightarrow> pyval \<Rightarrow> exn + (string \<times> pyval) list" where
  "dict_or_empty msg v =
     (case v of PNone \<Rightarrow> Inr [] | PDict d \<Rightarrow> Inr d | _ \<Rightarrow> Inl (ModelUseError msg))"

text \<open>Lines 126 to 138: \<^verbatim>\<open>options.get\<close> exists on a dictionary only.\<close>

definition options_of :: "pyval \<Rightarrow> exn + options" where
  "options_of v =
     (case v of PNone \<Rightarrow> Inr (read_options []) | PDict d \<Rightarrow> Inr (read_options d)
      | _ \<Rightarrow> Inl AttributeError)"

text \<open>Lines 141 to 156: the choice of the analyzer by the number of target variables.\<close>

definition choose_analyzer ::
  "('a, 'b) base_classes \<Rightarrow> ctor_args \<Rightarrow> event list \<times> (exn + ('a, 'b) analyzer)" where
  "choose_analyzer base args =
     (if dict_len (arg_vars args) = 1 then
        ([Call1DAnalyzer],
         case bind_keywords (base_sig base)
                [''model'', ''vars_dynamical'', ''vars_fixed'', ''pars_update'', ''options''] of
           Some e \<Rightarrow> Inl e
         | None \<Rightarrow> map_sum id Analyzer1D (build_1d base args))
      else if dict_len (arg_vars args) = 2 then
        ([Call2DAnalyzer],
         case bind_keywords (base_sig base)
                [''model'', ''targevars_dynamicalt_vars'', ''vars_fixed'', ''pars_update'',
                 ''options''] of
           Some e \<Rightarrow> Inl e
         | None \<Rightarrow> map_sum id Analyzer2D (build_2d base args))
      else ([], Inl UnsupportedDimensionality))"

text \<open>Lines 95 to 138: the checks of the arguments, in the order of the source.\<close>

definition check_arguments ::
  "model_arg \<Rightarrow> pyval \<Rightarrow> pyval \<Rightarrow> pyval \<Rightarrow> pyval \<Rightarrow> exn + ctor_args" where
  "check_arguments model target_vars fixed_vars pars_update opts =
     (case model of
        NotNeuType \<Rightarrow> Inl (ModelUseError msg_model)
      | NeuType m \<Rightarrow>
     (case target_vars of
        PDict tv \<Rightarrow>
     (case dict_or_empty msg_fixed_vars fixed_vars of
        Inl e \<Rightarrow> Inl e
      | Inr fv \<Rightarrow>
     (case dict_or_empty msg_pars_update pars_update of
        Inl e \<Rightarrow> Inl e
      | Inr pu \<Rightarrow>
     (case filter (\<lambda>key. key \<notin> set (step_scopes m)) (map fst pu) of
        key # _ \<Rightarrow> Inl (ModelUseError (msg_invalid_par key (name m)))
      | [] \<Rightarrow>
     (case options_of opts of
        Inl e \<Rightarrow> Inl e
      | Inr os \<Rightarrow>
          Inr \<lparr> arg_model = m, arg_vars = tv, arg_vars_fixed = fv, arg_pars_update = pu,
                arg_options = os \<rparr>))))
      | _ \<Rightarrow> Inl (ModelUseError msg_target_vars)))"

text \<open>
  \<^verbatim>\<open>PhasePlaneAnalyzer.__init__\<close>, lines 86 to 156: the events of the construction and
  the object, or the exception that leaves the constructor.
\<close>

definition PhasePlaneAnalyzer_init ::
  "('a, 'b) base_classes \<Rightarrow> model_arg \<Rightarrow> pyval \<Rightarrow> pyval \<Rightarrow> pyval \<Rightarrow> pyval \<Rightarrow>
   event list \<times> (exn + ('a, 'b) phase_plane_analyzer)" where
  "PhasePlaneAnalyzer_init base model target_vars fixed_vars pars_update opts =
     (case check_arguments model target_vars fixed_vars pars_update opts of
        Inl e \<Rightarrow> ([], Inl e)
      | Inr args \<Rightarrow>
          (case choose_analyzer base args of
             (events, Inl e) \<Rightarrow> (events, Inl e)
           | (events, Inr a) \<Rightarrow>
               (events,
                Inr \<lparr> self_model = arg_model args, self_target_vars = arg_vars args,
                      self_fixed_vars = arg_vars_fixed args,
                      self_pars_update = arg_pars_update args,
                      self_options = arg_options args, self_analyzer = a \<rparr>)))"

text \<open>
  Arguments that pass the checks of lines 95 to 138, apart from \<^verbatim>\<open>target_vars\<close>: a
  neuron type, a dictionary or \<^verbatim>\<open>None\<close> for \<^verbatim>\<open>fixed_vars\<close>, \<^verbatim>\<open>pars_update\<close> and
  \<^verbatim>\<open>options\<close>, and every key of \<^verbatim>\<open>pars_update\<close> in the scope of the model.
\<close>

definition well_formed :: "model_arg \<Rightarrow> pyval \<Rightarrow> pyval \<Rightarrow> pyval \<Rightarrow> bool" where
  "well_formed model fixed_vars pars_update opts =
     (case model of
        NotNeuType \<Rightarrow> False
      | NeuType m \<Rightarrow>
          (case fixed_vars of PNone \<Rightarrow> True | PDict _ \<Rightarrow> True | _ \<Rightarrow> False) \<and>
          (case pars_update of
             PNone \<Rightarrow> True
           | PDict pu \<Rightarrow> list_all (\<lambda>key. key \<in> set (step_scopes m)) (map fst pu)
           | _ \<Rightarrow> False) \<and>
          (case opts of PNone \<Rightarrow> True | PDict _ \<Rightarrow> True | _ \<Rightarrow> False))"

section \<open>PhasePlane1DAnalyzer\<close>

text \<open>
  The state of a 1D analyzer, as far as the methods below read it. The fields that
  \<^verbatim>\<open>base.Base1DNeuronAnalyzer\<close>, \<^verbatim>\<open>solver\<close>, \<^verbatim>\<open>utils\<close> and sympy provide are parameters:
  \<^item> \<open>f_dx\<close>: \<^verbatim>\<open>self.get_f_dx()(...)\<close>, the bound evaluator of the right-hand side;
  \<^item> \<open>symbolic_stage\<close>: the body of the \<^verbatim>\<open>try\<close> at lines 275 to 288 up to the call of
    \<^verbatim>\<open>solve_x\<close>, that is \<^verbatim>\<open>sympy.solve\<close> under \<^verbatim>\<open>utils.timeout\<close> and the evaluation of
    each solution in the scope: the values of the solutions in sympy's order, or the
    exception raised (a timeout arrives as \<^verbatim>\<open>KeyboardInterrupt\<close>, the clause at line 292);
  \<^item> \<open>numeric_stage\<close>: lines 297 to 302, \<^verbatim>\<open>solver.find_root_of_1d(optimizer, self.xs)\<close>;
  \<^item> \<open>f_dfdx\<close>: \<^verbatim>\<open>self.get_f_dfdx()\<close>; \<open>stability_analysis\<close> and
    \<open>get_1d_classification\<close>: the functions of \<^verbatim>\<open>utils\<close>.
  Building the expressions and the scope (lines 262 to 269) and the drawing calls of
  matplotlib are taken to succeed and are not modelled.
\<close>

record analyzer_1d =
  x_var :: string
  x_resolution :: "pyfloat list"
  options_1d :: options
  f_dx :: "pyfloat list \<Rightarrow> exn + pyfloat list"
  symbolic_stage :: "exn + pyfloat list"
  numeric_stage :: "exn + pyfloat list"
  f_dfdx :: "pyval \<Rightarrow> exn + pyval"
  stability_analysis :: "pyval \<Rightarrow> exn + string"
  get_1d_classification :: "string list"

definition msg_missing :: string where
  \<open>msg_missing = ''Missing variables. Please check and set missing '' @
     ''variables to "fixed_vars".''\<close>

text \<open>\<^verbatim>\<open>PhasePlane1DAnalyzer.plot_vector_field\<close>, lines 240 to 259: the curve that is drawn.\<close>

definition plot_vector_field_1d :: "analyzer_1d \<Rightarrow> exn + (pyfloat list \<times> pyfloat list)" where
  "plot_vector_field_1d a =
     (case f_dx a (x_resolution a) of
        Inl (TypeError _) \<Rightarrow> Inl (ModelUseError msg_missing)
      | Inl e \<Rightarrow> Inl e
      | Inr y_val \<Rightarrow> Inr (x_resolution a, y_val))"

text \<open>
  Lines 280 to 288: \<^verbatim>\<open>solve_x\<close> ends in \<^verbatim>\<open>return\<close> followed by the solutions joined by
  commas. Python returns \<^verbatim>\<open>None\<close> for no expression, the value for one, a tuple for more.
\<close>

definition solve_x :: "pyfloat list \<Rightarrow> pyval" where
  "solve_x vals = (case vals of [] \<Rightarrow> PNone | [v] \<Rightarrow> PNum v | _ \<Rightarrow> PSeq (map PNum vals))"

text \<open>
  Lines 271 to 293: the pair is \<^verbatim>\<open>sympy_failed\<close> and \<^verbatim>\<open>x_values\<close> after the \<^verbatim>\<open>try\<close>
  (\<open>PNone\<close> stands for the unassigned \<^verbatim>\<open>x_values\<close>). Line 289 puts the value of
  \<^verbatim>\<open>solve_x()\<close> in a one-element list before \<^verbatim>\<open>np.array\<close>.
\<close>

definition symbolic_attempt :: "analyzer_1d \<Rightarrow> exn + (bool \<times> pyval)" where
  "symbolic_attempt a =
     (if \<not> truthy (escape_sympy_solver (options_1d a)) then
        (case symbolic_stage a of
           Inr vals \<Rightarrow> Inr (False, PSeq [solve_x vals])
         | Inl NotImplementedError \<Rightarrow> Inr (True, PNone)
         | Inl KeyboardInterrupt \<Rightarrow> Inr (True, PNone)
         | Inl e \<Rightarrow> Inl e)
      else Inr (True, PNone))"

text \<open>Lines 295 to 303.\<close>

definition find_x_values :: "analyzer_1d \<Rightarrow> exn + pyval" where
  "find_x_values a =
     (case symbolic_attempt a of
        Inl e \<Rightarrow> Inl e
      | Inr (sympy_failed, x_values) \<Rightarrow>
          if sympy_failed then map_sum id (\<lambda>roots. PSeq (map PNum roots)) (numeric_stage a)
          else Inr x_values)"

text \<open>
  Lines 313 to 319: the container has one list per class; each entry of the first axis
  of \<^verbatim>\<open>x_values\<close> is classified and appended to the list of its class.
\<close>

definition new_container :: "string list \<Rightarrow> (string \<rightharpoonup> pyval list)" where
  "new_container classes = (\<lambda>c. if c \<in> set classes then Some [] else None)"

fun classify ::
  "analyzer_1d \<Rightarrow> pyval list \<Rightarrow> (string \<rightharpoonup> pyval list) \<Rightarrow> exn + (string \<rightharpoonup> pyval list)" where
  "classify a [] container = Inr container"
| "classify a (x # rest) container =
     (case f_dfdx a x of
        Inl e \<Rightarrow> Inl e
      | Inr dfdx \<Rightarrow>
     (case stability_analysis a dfdx of
        Inl e \<Rightarrow> Inl e
      | Inr fp_type \<Rightarrow>
     (case container fp_type of
        None \<Rightarrow> Inl (KeyError fp_type)
      | Some points \<Rightarrow> classify a rest (container(fp_type \<mapsto> points @ [x])))))"

text \<open>
  \<^verbatim>\<open>PhasePlane1DAnalyzer.plot_fixed_point\<close>, lines 261 to 332. \<open>fp_points\<close> is the array
  returned; \<open>fp_classes\<close> is the container whose lists are printed and drawn.
\<close>

record fixed_points =
  fp_points :: pyval
  fp_classes :: "string \<rightharpoonup> pyval list"

definition plot_fixed_point_1d :: "analyzer_1d \<Rightarrow> exn + fixed_points" where
  "plot_fixed_point_1d a =
     (case find_x_values a of
        Inl e \<Rightarrow> Inl e
      | Inr x_values \<Rightarrow>
     (case x_values of
        PSeq entries \<Rightarrow>
          (case classify a entries (new_container (get_1d_classification a)) of
             Inl e \<Rightarrow> Inl e
           | Inr container \<Rightarrow> Inr \<lparr> fp_points = x_values, fp_classes = container \<rparr>)
      | _ \<Rightarrow> Inl (TypeError NoLen)))"

section \<open>PhasePlane2DAnalyzer\<close>

subsection \<open>Elementwise float operations of numpy\<close>

text \<open>
  The operations that line 387 and line 389 apply to every entry. Signed zeros are not
  told apart, so a finite nonzero value divided by zero takes the sign of the dividend.
\<close>

fun is_nan :: "pyfloat \<Rightarrow> bool" where
  "is_nan NaN = True"
| "is_nan _ = False"

fun is_finite :: "pyfloat \<Rightarrow> bool" where
  "is_finite (Fin _) = True"
| "is_finite _ = False"

fun fneg :: "pyfloat \<Rightarrow> pyfloat" where
  "fneg (Fin a) = Fin (- a)"
| "fneg PInf = NInf"
| "fneg NInf = PInf"
| "fneg NaN = NaN"

fun fadd :: "pyfloat \<Rightarrow> pyfloat \<Rightarrow> pyfloat" where
  "fadd NaN _ = NaN"
| "fadd _ NaN = NaN"
| "fadd (Fin a) (Fin b) = Fin (a + b)"
| "fadd PInf NInf = NaN"
| "fadd NInf PInf = NaN"
| "fadd PInf _ = PInf"
| "fadd NInf _ = NInf"
| "fadd (Fin a) b = b"

text \<open>An infinity times a value: the sign rule, and \<open>NaN\<close> for zero.\<close>

fun inf_times :: "pyfloat \<Rightarrow> pyfloat \<Rightarrow> pyfloat" where
  "inf_times i (Fin a) = (if a = 0 then NaN else if 0 < a then i else fneg i)"
| "inf_times i PInf = i"
| "inf_times i NInf = fneg i"
| "inf_times i NaN = NaN"

fun fmul :: "pyfloat \<Rightarrow> pyfloat \<Rightarrow> pyfloat" where
  "fmul NaN _ = NaN"
| "fmul (Fin a) (Fin b) = Fin (a * b)"
| "fmul (Fin a) b = inf_times b (Fin a)"
| "fmul i b = inf_times i b"

fun fdiv :: "pyfloat \<Rightarrow> pyfloat \<Rightarrow> pyfloat" where
  "fdiv NaN _ = NaN"
| "fdiv _ NaN = NaN"
| "fdiv (Fin a) (Fin b) =
     (if b \<noteq> 0 then Fin (a / b)
      else if a = 0 then NaN else if 0 < a then PInf else NInf)"
| "fdiv (Fin a) _ = Fin 0"
| "fdiv i (Fin b) = (if 0 \<le> b then i else fneg i)"
| "fdiv i _ = NaN"

fun fsqrt :: "pyfloat \<Rightarrow> pyfloat" where
  "fsqrt (Fin a) = (if a < 0 then NaN else Fin (sqrt a))"
| "fsqrt PInf = PInf"
| "fsqrt _ = NaN"

text \<open>The larger of two values as \<^verbatim>\<open>np.max\<close> folds them: a \<open>NaN\<close> wins.\<close>

fun fmax :: "pyfloat \<Rightarrow> pyfloat \<Rightarrow> pyfloat" where
  "fmax NaN _ = NaN"
| "fmax _ NaN = NaN"
| "fmax PInf _ = PInf"
| "fmax _ PInf = PInf"
| "fmax NInf b = b"
| "fmax a NInf = a"
| "fmax (Fin a) (Fin b) = Fin (max a b)"

type_synonym matrix = "pyfloat list list"

text \<open>\<^verbatim>\<open>np.isnan(m).any()\<close>.\<close>

definition any_nan :: "matrix \<Rightarrow> bool" where
  "any_nan m = list_ex (list_ex is_nan) m"

text \<open>\<^verbatim>\<open>m.max()\<close>: the maximum over all entries; numpy raises on an array without entries.\<close>

definition array_max :: "matrix \<Rightarrow> exn + pyfloat" where
  "array_max m =
     (case concat m of
        [] \<Rightarrow> Inl (ValueError ''zero-size array to reduction operation maximum which has no identity'')
      | v # vs \<Rightarrow> Inr (fold fmax vs v))"

text \<open>\<^verbatim>\<open>np.meshgrid(xs, ys)\<close>: one row per entry of \<open>ys\<close>.\<close>

definition meshgrid :: "pyfloat list \<Rightarrow> pyfloat list \<Rightarrow> matrix \<times> matrix" where
  "meshgrid xs ys = (replicate (length ys) xs, map (\<lambda>y. replicate (length xs) y) ys)"

text \<open>
  Line 387, \<^verbatim>\<open>np.sqrt(dx ** 2 + dy ** 2)\<close>, on two arrays of the shape of the mesh.
\<close>

definition speed_of :: "matrix \<Rightarrow> matrix \<Rightarrow> matrix" where
  "speed_of dx dy =
     map2 (\<lambda>rx ry. map2 (\<lambda>u v. fsqrt (fadd (fmul u u) (fmul v v))) rx ry) dx dy"

text \<open>Line 389, \<^verbatim>\<open>lw_min + lw_max * speed / speed.max()\<close>.\<close>

definition line_width :: "pyfloat \<times> pyfloat \<Rightarrow> matrix \<Rightarrow> exn + matrix" where
  "line_width line_widths speed =
     (case line_widths of (lw_min, lw_max) \<Rightarrow>
        (case array_max speed of
           Inl e \<Rightarrow> Inl e
         | Inr speed_max \<Rightarrow>
             Inr (map (map (\<lambda>s. fadd lw_min (fdiv (fmul lw_max s) speed_max))) speed)))"

text \<open>
  The state of a 2D analyzer as the methods read it. The evaluators, the symbolic
  solutions (a dictionary with a \<^verbatim>\<open>status\<close> and a function \<^verbatim>\<open>f\<close>) and the numeric
  nullcline optimizers come from \<^verbatim>\<open>base.Base2DNeuronAnalyzer\<close> and are parameters.
  The evaluators are taken to return arrays of the shape of the mesh.
\<close>

record sym_result =
  status :: string
  f :: "pyfloat list \<Rightarrow> exn + pyfloat list"

record analyzer_2d =
  x_var_2d :: string
  y_var_2d :: string
  xs_2d :: "pyfloat list"
  ys_2d :: "pyfloat list"
  f_dx_2d :: "matrix \<Rightarrow> matrix \<Rightarrow> exn + matrix"
  f_dy_2d :: "matrix \<Rightarrow> matrix \<Rightarrow> exn + matrix"
  x_func_name :: string
  y_func_name :: string
  get_y_by_x_in_y_eq :: sym_result
  get_x_by_y_in_y_eq :: sym_result
  get_y_by_x_in_x_eq :: sym_result
  get_x_by_y_in_x_eq :: sym_result
  get_f_optimize_y_nullcline :: "string \<Rightarrow> exn + (pyfloat list \<times> pyfloat list)"
  get_f_optimize_x_nullcline :: "string \<Rightarrow> exn + (pyfloat list \<times> pyfloat list)"

text \<open>
  Lines 370 to 381: a \<^verbatim>\<open>TypeError\<close> of an evaluator becomes the \<^verbatim>\<open>ModelUseError\<close> with
  the fixed message; any other exception passes.
\<close>

definition evaluate :: "(matrix \<Rightarrow> matrix \<Rightarrow> exn + matrix) \<Rightarrow> matrix \<times> matrix \<Rightarrow> exn + matrix" where
  "evaluate ev mesh =
     (case ev (fst mesh) (snd mesh) of
        Inl (TypeError _) \<Rightarrow> Inl (ModelUseError msg_missing)
      | Inl e \<Rightarrow> Inl e
      | Inr d \<Rightarrow> Inr d)"

text \<open>
  \<^verbatim>\<open>PhasePlane2DAnalyzer.plot_vector_field\<close>, lines 352 to 397. \<open>vf_linewidth\<close> is the
  \<^verbatim>\<open>linewidth\<close> argument of the \<^verbatim>\<open>streamplot\<close> call: absent at line 385, the rescaled
  speed at line 390.
\<close>

record vector_field =
  vf_dx :: matrix
  vf_dy :: matrix
  vf_linewidth :: "matrix option"

definition plot_vector_field_2d :: "analyzer_2d \<Rightarrow> pyfloat \<times> pyfloat \<Rightarrow> exn + vector_field" where
  "plot_vector_field_2d a line_widths =
     (let mesh = meshgrid (xs_2d a) (ys_2d a) in
      case evaluate (f_dx_2d a) mesh of
        Inl e \<Rightarrow> Inl e
      | Inr dx \<Rightarrow>
     (case evaluate (f_dy_2d a) mesh of
        Inl e \<Rightarrow> Inl e
      | Inr dy \<Rightarrow>
          if any_nan dx \<or> any_nan dy
          then Inr \<lparr> vf_dx = dx, vf_dy = dy, vf_linewidth = None \<rparr>
          else (case line_width line_widths (speed_of dx dy) of
                  Inl e \<Rightarrow> Inl e
                | Inr lw \<Rightarrow> Inr \<lparr> vf_dx = dx, vf_dy = dy, vf_linewidth = Some lw \<rparr>)))"

subsection \<open>Nullclines\<close>

text \<open>
  \<^verbatim>\<open>numerical_setting\<close> is \<^verbatim>\<open>None\<close> or a dictionary from function names to dictionaries
  with the keys \<^verbatim>\<open>coords\<close> and \<^verbatim>\<open>plot\<close>; lines 468 to 475 read it with \<^verbatim>\<open>get\<close>.
\<close>

type_synonym setting = "(string \<times> string) list"

definition setting_of :: "(string \<times> setting) list option \<Rightarrow> string \<Rightarrow> setting" where
  "setting_of numerical_setting func_name =
     (case numerical_setting of
        None \<Rightarrow> []
      | Some d \<Rightarrow> (case map_of d func_name of Some s \<Rightarrow> s | None \<Rightarrow> []))"

definition get_str :: "setting \<Rightarrow> string \<Rightarrow> string \<Rightarrow> string" where
  "get_str s k dflt = (case map_of s k of Some v \<Rightarrow> v | None \<Rightarrow> dflt)"

definition apply_f :: "sym_result \<Rightarrow> pyfloat list \<Rightarrow> exn + pyfloat list" where
  "apply_f r grid =
     (case f r grid of
        Inl (TypeError _) \<Rightarrow> Inl (ModelUseError msg_missing)
      | Inl e \<Rightarrow> Inl e
      | Inr vals \<Rightarrow> Inr vals)"

text \<open>
  The nullcline of one equation, lines 482 to 512 for the \<open>y\<close> equation and lines 516
  to 547 for the \<open>x\<close> equation, which differ in the solutions and the optimizer they
  use and in the plot style they test (both name \<^verbatim>\<open>x_plot_style\<close> in the error): the
  pair of the \<open>x\<close> values and the \<open>y\<close> values.
\<close>

definition nullcline_of ::
  "analyzer_2d \<Rightarrow> sym_result \<Rightarrow> sym_result \<Rightarrow> exn + (pyfloat list \<times> pyfloat list) \<Rightarrow>
   string \<Rightarrow> string \<Rightarrow> exn + (pyfloat list \<times> pyfloat list)" where
  "nullcline_of a y_by_x x_by_y optimizer plot_style x_plot_style =
     (if status y_by_x = ''sympy_success'' then
        (case apply_f y_by_x (xs_2d a) of
           Inl e \<Rightarrow> Inl e
         | Inr y_values \<Rightarrow> Inr (xs_2d a, y_values))
      else if status x_by_y = ''sympy_success'' then
        (case apply_f x_by_y (ys_2d a) of
           Inl e \<Rightarrow> Inl e
         | Inr x_values \<Rightarrow> Inr (x_values, ys_2d a))
      else
        (case optimizer of
           Inl e \<Rightarrow> Inl e
         | Inr (x_values, y_values) \<Rightarrow>
             if plot_style = ''scatter'' \<or> plot_style = ''line'' then Inr (x_values, y_values)
             else Inl (ValueError (''Unknown plot style: '' @ x_plot_style))))"

text \<open>
  \<^verbatim>\<open>PhasePlane2DAnalyzer.plot_nullcline\<close>, lines 442 to 559. The \<open>y\<close> equation is
  traced first and tests the plot style of the \<open>x\<close> setting (line 507), the \<open>x\<close>
  equation tests that of the \<open>y\<close> setting (line 542). The value returned is the
  dictionary of lines 558 and 559, whose second key overwrites an equal first one.
\<close>

definition plot_nullcline ::
  "analyzer_2d \<Rightarrow> (string \<times> setting) list option \<Rightarrow>
   exn + (string \<rightharpoonup> (pyfloat list \<times> pyfloat list))" where
  "plot_nullcline a numerical_setting =
     (let x_setting = setting_of numerical_setting (x_func_name a);
          y_setting = setting_of numerical_setting (y_func_name a);
          x_coords = get_str x_setting ''coords'' (x_var_2d a @ ''-'' @ y_var_2d a);
          y_coords = get_str y_setting ''coords'' (x_var_2d a @ ''-'' @ y_var_2d a);
          x_plot_style = get_str x_setting ''plot'' ''scatter'';
          y_plot_style = get_str y_setting ''plot'' ''scatter''
      in
      case nullcline_of a (get_y_by_x_in_y_eq a) (get_x_by_y_in_y_eq a)
             (get_f_optimize_y_nullcline a y_coords) x_plot_style x_plot_style of
        Inl e \<Rightarrow> Inl e
      | Inr in_y_eq \<Rightarrow>
     (case nullcline_of a (get_y_by_x_in_x_eq a) (get_x_by_y_in_x_eq a)
             (get_f_optimize_x_nullcline a x_coords) y_plot_style x_plot_style of
        Inl e \<Rightarrow> Inl e
      | Inr in_x_eq \<Rightarrow> Inr [x_func_name a \<mapsto> in_x_eq, y_func_name a \<mapsto> in_y_eq]))"

text \<open>
  The solving method that produced the nullcline of an equation, in the words of the
  spec: the branch of \<open>nullcline_of\<close> that is taken.
\<close>

datatype solving_method = SymbolicInverseInX | SymbolicInverseInY | NumericSweep

definition method_used :: "sym_result \<Rightarrow> sym_result \<Rightarrow> solving_method" where
  "method_used y_by_x x_by_y =
     (if status y_by_x = ''sympy_success'' then SymbolicInverseInX
      else if status x_by_y = ''sympy_success'' then SymbolicInverseInY
      else NumericSweep)"

text \<open>
  What the pair \<open>c\<close> of coordinate sequences is under each method: the \<open>x\<close> grid with
  the values of the solution on it, the values of the solution on the \<open>y\<close> grid with
  that grid, or the two sequences of the optimizer.
\<close>

definition traced ::
  "analyzer_2d \<Rightarrow> sym_result \<Rightarrow> sym_result \<Rightarrow> exn + (pyfloat list \<times> pyfloat list) \<Rightarrow>
   pyfloat list \<times> pyfloat list \<Rightarrow> bool" where
  "traced a y_by_x x_by_y optimizer c =
     (case method_used y_by_x x_by_y of
        SymbolicInverseInX \<Rightarrow> fst c = xs_2d a \<and> f y_by_x (xs_2d a) = Inr (snd c)
      | SymbolicInverseInY \<Rightarrow> snd c = ys_2d a \<and> f x_by_y (ys_2d a) = Inr (fst c)
      | NumericSweep \<Rightarrow> optimizer = Inr c)"

text \<open>The \<^verbatim>\<open>coords\<close> setting of an equation, lines 470 to 473.\<close>

definition coords_of :: "analyzer_2d \<Rightarrow> (string \<times> setting) list option \<Rightarrow> string \<Rightarrow> string" where
  "coords_of a numerical_setting func_name =
     get_str (setting_of numerical_setting func_name) ''coords''
       (x_var_2d a @ ''-'' @ y_var_2d a)"

section \<open>Trajectories\<close>

text \<open>
  An entry of the \<^verbatim>\<open>initials\<close> argument is a number or a tuple of numbers. After
  lines 658 to 660 the loop of line 664 walks the first axis of the array: a row of
  entries, or a number where the batch held one.
\<close>

datatype initial = Scalar pyfloat | Tuple "pyfloat list"

datatype row = Row "initial list" | Item pyfloat

fun as_row :: "initial \<Rightarrow> row" where
  "as_row (Scalar v) = Item v"
| "as_row (Tuple vs) = Row (map Scalar vs)"

text \<open>
  What \<^verbatim>\<open>np.array\<close> does with a sequence whose entries do not form a rectangular array
  depends on the NumPy installed, and the code runs on both kinds (\<^verbatim>\<open>np.float_\<close> exists
  up to NumPy 1.26): before NumPy 1.24 the result is the one-dimensional array of the
  entries themselves, each with its own length; from NumPy 1.24 on the call raises
  \<^verbatim>\<open>ValueError\<close>. The behaviour is a parameter of the model.
\<close>

datatype ragged_input = BuildsObjectArray | RaisesValueError

fun is_scalar :: "initial \<Rightarrow> bool" where
  "is_scalar (Scalar _) = True"
| "is_scalar (Tuple _) = False"

fun has_length :: "nat \<Rightarrow> initial \<Rightarrow> bool" where
  "has_length n (Tuple vs) = (length vs = n)"
| "has_length n (Scalar _) = False"

text \<open>
  The entries form a rectangular array: they are all numbers, or all tuples of one
  length.
\<close>

definition regular :: "initial list \<Rightarrow> bool" where
  "regular entries =
     (case entries of
        [] \<Rightarrow> True
      | Scalar _ # rest \<Rightarrow> list_all is_scalar rest
      | Tuple vs # rest \<Rightarrow> list_all (has_length (length vs)) rest)"

definition msg_inhomogeneous :: string where
  "msg_inhomogeneous = ''setting an array element with a sequence. '' @
     ''The requested array has an inhomogeneous shape.''"

text \<open>
  Lines 658 to 660: \<^verbatim>\<open>initials[0]\<close> raises on an empty sequence; a number in front
  makes the whole sequence one row (line 659); then \<^verbatim>\<open>np.array\<close> (line 660) builds the
  array, or raises where it refuses entries that are not regular. The one-row list of
  line 659 is rectangular exactly when its entries are all numbers.
\<close>

definition format_initials :: "ragged_input \<Rightarrow> initial list \<Rightarrow> exn + row list" where
  "format_initials numpy initials =
     (case initials of
        [] \<Rightarrow> Inl IndexError
      | first # _ \<Rightarrow>
          if numpy = RaisesValueError \<and> \<not> regular initials
          then Inl (ValueError msg_inhomogeneous)
          else Inr (case first of
                      Scalar _ \<Rightarrow> [Row initials]
                    | Tuple _ \<Rightarrow> map as_row initials))"

definition msg_initials :: string where
  \<open>msg_initials = ''"initials" be a tuple/list/array with the format of '' @
     ''[[var1 initial, var2 initial]].''\<close>

text \<open>
  The spec's \<open>MalformedInitialCondition\<close> is the \<^verbatim>\<open>ModelUseError\<close> raised for the
  failed assertion (lines 666 to 670).
\<close>

definition MalformedInitialCondition :: exn where
  "MalformedInitialCondition = ModelUseError msg_initials"

text \<open>
  Lines 672 and 673, \<^verbatim>\<open>initial_states[j, i] = val\<close> for the entries of row \<open>i\<close> from
  column \<open>j\<close> on. The assertion has bounded \<open>j\<close> by the number of target variables.
\<close>

fun set_states :: "nat \<Rightarrow> nat \<Rightarrow> initial list \<Rightarrow> matrix \<Rightarrow> exn + matrix" where
  "set_states i j [] initial_states = Inr initial_states"
| "set_states i j (Scalar v # rest) initial_states =
     set_states i (Suc j) rest (initial_states[j := (initial_states ! j)[i := v]])"
| "set_states i j (Tuple _ # rest) initial_states =
     Inl (ValueError ''setting an array element with a sequence.'')"

text \<open>Lines 664 to 673, from row \<open>i\<close> on; \<open>n\<close> is \<^verbatim>\<open>len(target_vars)\<close>.\<close>

fun check_and_set :: "nat \<Rightarrow> nat \<Rightarrow> row list \<Rightarrow> matrix \<Rightarrow> exn + matrix" where
  "check_and_set n i [] initial_states = Inr initial_states"
| "check_and_set n i (Item _ # rest) initial_states = Inl (TypeError NoLen)"
| "check_and_set n i (Row vals # rest) initial_states =
     (if length vals \<noteq> n then Inl MalformedInitialCondition
      else (case set_states i 0 vals initial_states of
              Inl e \<Rightarrow> Inl e
            | Inr initial_states' \<Rightarrow> check_and_set n (Suc i) rest initial_states'))"

text \<open>
  The neuron group and its run (lines 677 to 681) belong to \<^verbatim>\<open>brainpy.core\<close>: the
  parameter \<open>run_group\<close> takes the size of the group, the initial state of each target
  variable, the duration and the inputs, and gives the monitor or an exception.
  \<open>mon_var m v i\<close> is \<^verbatim>\<open>getattr(group.mon, v)[:, i]\<close>.
\<close>

record monitor =
  mon_ts :: "pyfloat list"
  mon_var :: "string \<Rightarrow> nat \<Rightarrow> pyfloat list"

type_synonym runner = "nat \<Rightarrow> (string \<times> pyfloat list) list \<Rightarrow> pyval \<Rightarrow> pyval \<Rightarrow> exn + monitor"

text \<open>
  A trajectory (lines 686 to 694): the time axis, the series of each target variable
  and the legend, kept as the pairs of a variable and its initial value that line 690
  prints.
\<close>

record trajectory =
  traj_ts :: "pyfloat list"
  traj_vars :: "(string \<times> pyfloat list) list"
  traj_legend :: "(string \<times> initial) list"

definition trajectory_of :: "monitor \<Rightarrow> string list \<Rightarrow> nat \<Rightarrow> initial list \<Rightarrow> trajectory" where
  "trajectory_of mon target_vars i vals =
     \<lparr> traj_ts = mon_ts mon,
       traj_vars = map (\<lambda>var. (var, mon_var mon var i)) target_vars,
       traj_legend = map (\<lambda>(j, var). (var, vals ! j)) (enumerate 0 target_vars) \<rparr>"

fun row_entries :: "row \<Rightarrow> initial list" where
  "row_entries (Row vals) = vals"
| "row_entries (Item v) = []"

text \<open>The one event the claims speak about: line 677 is reached with a group size.\<close>

datatype run_event = NeuGroupCalled nat

text \<open>
  \<^verbatim>\<open>get_trajectories\<close>, lines 622 to 695. The first argument is the behaviour of the
  NumPy at hand on entries that are not regular.
\<close>

definition get_trajectories ::
  "ragged_input \<Rightarrow> runner \<Rightarrow> string list \<Rightarrow> initial list \<Rightarrow> pyval \<Rightarrow> pyval \<Rightarrow>
   run_event list \<times> (exn + trajectory list)" where
  "get_trajectories numpy run_group target_vars initials duration inputs =
     (case format_initials numpy initials of
        Inl e \<Rightarrow> ([], Inl e)
      | Inr rows \<Rightarrow>
     (case check_and_set (length target_vars) 0 rows
             (replicate (length target_vars) (replicate (length rows) (Fin 0))) of
        Inl e \<Rightarrow> ([], Inl e)
      | Inr initial_states \<Rightarrow>
          ([NeuGroupCalled (length rows)],
           case run_group (length rows) (zip target_vars initial_states) duration inputs of
             Inl e \<Rightarrow> Inl e
           | Inr mon \<Rightarrow>
               Inr (map (\<lambda>(i, r). trajectory_of mon target_vars i (row_entries r))
                      (enumerate 0 rows)))))"

section \<open>Concrete inputs\<close>

text \<open>
  A neuron type with two parameters, an interval for a target variable, and base classes
  whose constructor takes the keywords of the one-variable call (lines 142 to 146) and
  builds a trivial analyzer.
\<close>

definition hh :: neutype where
  "hh = \<lparr> name = ''HH'', step_scopes = [''gNa'', ''gK''] \<rparr>"

definition interval :: pyval where
  "interval = PSeq [PNum (Fin 0), PNum (Fin 1)]"

definition unit_base :: "(unit, unit) base_classes" where
  "unit_base =
     \<lparr> base_sig =
         \<lparr> sig_params = [(''model'', False), (''vars_dynamical'', False),
             (''vars_fixed'', False), (''pars_update'', False), (''options'', False)],
           sig_var_kw = False \<rparr>,
       build_1d = (\<lambda>_. Inr ()), build_2d = (\<lambda>_. Inr ()) \<rparr>"

text \<open>
  Whether an error message names a variable: the name occurs in the text
  (\<^verbatim>\<open>name in message\<close>).
\<close>

fun starts_with :: "string \<Rightarrow> string \<Rightarrow> bool" where
  "starts_with s [] = True"
| "starts_with [] (c # p) = False"
| "starts_with (d # s) (c # p) = (d = c \<and> starts_with s p)"

fun contains :: "string \<Rightarrow> string \<Rightarrow> bool" where
  "contains [] p = (p = [])"
| "contains (d # s) p = (starts_with (d # s) p \<or> contains s p)"

text \<open>
  The 1D system \<open>dx/dt = x (x - 1) (x + 1)\<close> on \<open>[-2, 2]\<close>, sampled at a few points.
  sympy solves it to \<open>-1, 0, 1\<close>; the numeric search is taken to find the same roots.
  The derivative \<open>3 x\<^sup>2 - 1\<close> is applied entry by entry to an array.
\<close>

fun cubic :: "pyfloat \<Rightarrow> pyfloat" where
  "cubic x = fmul x (fmul (fadd x (Fin (- 1))) (fadd x (Fin 1)))"

fun cubic_dfdx :: "pyval \<Rightarrow> exn + pyval" where
  "cubic_dfdx (PNum x) = Inr (PNum (fadd (fmul (Fin 3) (fmul x x)) (Fin (- 1))))"
| "cubic_dfdx (PSeq vs) =
     Inr (PSeq (map (\<lambda>v. case v of PNum x \<Rightarrow> PNum (fadd (fmul (Fin 3) (fmul x x)) (Fin (- 1)))
                         | _ \<Rightarrow> v) vs))"
| "cubic_dfdx _ = Inl (TypeError OtherTypeError)"

text \<open>
  Modelled from the spec: \<^verbatim>\<open>utils.stability_analysis\<close> and \<^verbatim>\<open>utils.get_1d_classification\<close>
  are not among the sources. Section 4.2 (step 6) and section 4.3 of the spec give the
  1D classes and the sign rule for a single derivative; for an array of several
  derivatives no class is defined, and the function raises. It serves as the classifier
  of the concrete systems only; the theorems hold for every classifier.
\<close>

fun sign_class :: "pyval \<Rightarrow> exn + string" where
  "sign_class (PNum (Fin d)) =
     Inr (if d < 0 then ''stable'' else if 0 < d then ''unstable'' else ''degenerate'')"
| "sign_class _ = Inl (ValueError ''Unknown derivatives'')"

definition cubic_1d :: analyzer_1d where
  "cubic_1d =
     \<lparr> x_var = ''x'',
       x_resolution = [Fin (- 2), Fin (- 1), Fin 0, Fin 1],
       options_1d = read_options [],
       f_dx = (\<lambda>xs. Inr (map cubic xs)),
       symbolic_stage = Inr [Fin (- 1), Fin 0, Fin 1],
       numeric_stage = Inr [Fin (- 1), Fin 0, Fin 1],
       f_dfdx = cubic_dfdx,
       stability_analysis = sign_class,
       get_1d_classification = [''stable'', ''unstable'', ''degenerate''] \<rparr>"

text \<open>The same system when sympy runs out of time and the numeric search finds no root.\<close>

definition timed_out_1d :: analyzer_1d where
  "timed_out_1d = cubic_1d \<lparr> symbolic_stage := Inl KeyboardInterrupt, numeric_stage := Inr [] \<rparr>"

text \<open>A 1D system whose evaluator cannot be called: the variable \<open>w\<close> was not supplied.\<close>

definition missing_w_1d :: analyzer_1d where
  "missing_w_1d = cubic_1d \<lparr> f_dx := (\<lambda>_. Inl (TypeError (MissingArguments [''w'']))) \<rparr>"

text \<open>
  The 2D system \<open>dx/dt = 1 / x\<close>, \<open>dy/dt = y - x\<^sup>2\<close>, sampled on the mesh of the single
  point \<open>(0, 0)\<close>, where the first equation has its pole. sympy gives the nullcline of
  the second equation as \<open>y = x\<^sup>2\<close>.
\<close>

definition fail_result :: sym_result where
  "fail_result = \<lparr> status = ''sympy_failed'', f = (\<lambda>_. Inl (OtherException ''no solution'')) \<rparr>"

definition pole_2d :: analyzer_2d where
  "pole_2d =
     \<lparr> x_var_2d = ''x'', y_var_2d = ''y'',
       xs_2d = [Fin 0], ys_2d = [Fin 0],
       f_dx_2d = (\<lambda>X Y. Inr (map (map (\<lambda>x. fdiv (Fin 1) x)) X)),
       f_dy_2d = (\<lambda>X Y. Inr (map2 (map2 (\<lambda>x y. fadd y (fneg (fmul x x)))) X Y)),
       x_func_name = ''int_x'', y_func_name = ''int_y'',
       get_y_by_x_in_y_eq = \<lparr> status = ''sympy_success'', f = (\<lambda>xs. Inr (map (\<lambda>x. fmul x x) xs)) \<rparr>,
       get_x_by_y_in_y_eq = fail_result,
       get_y_by_x_in_x_eq = fail_result,
       get_x_by_y_in_x_eq = fail_result,
       get_f_optimize_y_nullcline = (\<lambda>_. Inr ([Fin 1, Fin 2], [Fin 1, Fin 4])),
       get_f_optimize_x_nullcline = (\<lambda>_. Inr ([], [])) \<rparr>"

text \<open>The same system where the first evaluator yields a \<open>NaN\<close>, and on a regular mesh.\<close>

definition nan_2d :: analyzer_2d where
  "nan_2d = pole_2d \<lparr> f_dx_2d := (\<lambda>X Y. Inr (map (map (\<lambda>x. fdiv x x)) X)) \<rparr>"

definition regular_2d :: analyzer_2d where
  "regular_2d = pole_2d \<lparr> xs_2d := [Fin 1, Fin 2], ys_2d := [Fin 1] \<rparr>"

text \<open>A 2D system whose second evaluator cannot be called for the lack of \<open>w\<close>.\<close>

definition missing_w_2d :: analyzer_2d where
  "missing_w_2d = regular_2d \<lparr> f_dy_2d := (\<lambda>X Y. Inl (TypeError (MissingArguments [''w'']))) \<rparr>"

text \<open>
  The same nullclines on the grid \<open>1, 2\<close>, once with sympy's solution \<open>y = x\<^sup>2\<close> and once
  with no symbolic solution, where the numeric sweep finds the same points.
\<close>

definition symbolic_2d :: analyzer_2d where
  "symbolic_2d = pole_2d \<lparr> xs_2d := [Fin 1, Fin 2], ys_2d := [Fin 1, Fin 4] \<rparr>"

definition numeric_2d :: analyzer_2d where
  "numeric_2d = symbolic_2d \<lparr> get_y_by_x_in_y_eq := fail_result \<rparr>"

text \<open>
  A runner that integrates nothing: the monitor holds the initial value of each variable
  at the single time \<open>0\<close>.
\<close>

definition idle_runner :: runner where
  "idle_runner num states duration inputs =
     Inr \<lparr> mon_ts = [Fin 0],
           mon_var = (\<lambda>var i. case map_of states var of
                                 Some series \<Rightarrow> if i < length series then [series ! i] else []
                               | None \<Rightarrow> []) \<rparr>"

section \<open>Properties of the construction\<close>

lemma choose_analyzer_many:
  "3 \<le> dict_len (arg_vars args) \<Longrightarrow>
   choose_analyzer base args = ([], Inl UnsupportedDimensionality)"
  by (simp add: choose_analyzer_def)

lemma check_arguments_vars:
  "check_arguments model (PDict tv) fixed_vars pars_update opts = Inr args \<Longrightarrow>
   arg_vars args = tv"
  by (auto simp: check_arguments_def split: model_arg.splits sum.splits list.splits)

lemma init_fails_many:
  assumes n: "3 \<le> dict_len tv"
  shows "\<exists>e. PhasePlaneAnalyzer_init base model (PDict tv) fixed_vars pars_update opts =
    ([], Inl e)"
proof (cases "check_arguments model (PDict tv) fixed_vars pars_update opts")
  case (Inl e)
  then show ?thesis by (simp add: PhasePlaneAnalyzer_init_def)
next
  case (Inr args)
  then have "arg_vars args = tv" by (rule check_arguments_vars)
  with n Inr show ?thesis
    by (simp add: PhasePlaneAnalyzer_init_def choose_analyzer_many)
qed

lemma check_arguments_well_formed:
  assumes "well_formed model fixed_vars pars_update opts"
  shows "\<exists>args. check_arguments model (PDict tv) fixed_vars pars_update opts = Inr args \<and>
     arg_vars args = tv"
  using assms
  by (auto simp: well_formed_def check_arguments_def dict_or_empty_def options_of_def
      list_all_iff filter_empty_conv
      split: model_arg.splits pyval.splits)

lemma bind_unexpected:
  "k \<in> set kws \<Longrightarrow> k \<notin> set (map fst (sig_params sg)) \<Longrightarrow> \<not> sig_var_kw sg \<Longrightarrow>
   \<exists>k'. bind_keywords sg kws = Some (TypeError (UnexpectedKeyword k'))"
  by (auto simp: bind_keywords_def filter_empty_conv split: list.splits)

text \<open>
  The one-variable branch binds its keywords on the concrete base classes and installs a
  1D analyzer.
\<close>

lemma one_variable_constructs:
  "\<exists>r. PhasePlaneAnalyzer_init unit_base (NeuType hh) (PDict [(''V'', interval)])
     PNone PNone PNone = ([Call1DAnalyzer], Inr r) \<and> self_analyzer r = Analyzer1D ()"
  by (simp add: PhasePlaneAnalyzer_init_def choose_analyzer_def check_arguments_def
      dict_or_empty_def hh_def options_of_def dict_len_def unit_base_def bind_keywords_def)

text \<open>
  C1. The claim: with two target variables and well-formed other arguments the
  constructor succeeds and installs a 2D analyzer. The code calls the 2D analyzer class
  with the keyword \<^verbatim>\<open>targevars_dynamicalt_vars\<close> (line 149) where the one-variable branch
  writes \<^verbatim>\<open>vars_dynamical\<close> (line 143). Whenever the base constructor has no parameter
  of that name and no \<^verbatim>\<open>**kwargs\<close>, the call is made and leaves the constructor with a
  \<^verbatim>\<open>TypeError\<close> for an unexpected keyword: no analyzer is installed.
\<close>

theorem C1_two_variables_raise_type_error:
  assumes n: "dict_len tv = 2"
    and wf: "well_formed model fixed_vars pars_update opts"
    and k: "''targevars_dynamicalt_vars'' \<notin> set (map fst (sig_params (base_sig base)))"
    and kw: "\<not> sig_var_kw (base_sig base)"
  shows "\<exists>k. PhasePlaneAnalyzer_init base model (PDict tv) fixed_vars pars_update opts =
     ([Call2DAnalyzer], Inl (TypeError (UnexpectedKeyword k)))"
proof -
  from wf obtain args where
    a: "check_arguments model (PDict tv) fixed_vars pars_update opts = Inr args"
      "arg_vars args = tv"
    using check_arguments_well_formed by blast
  from k kw obtain k' where
    "bind_keywords (base_sig base)
       [''model'', ''targevars_dynamicalt_vars'', ''vars_fixed'', ''pars_update'', ''options'']
     = Some (TypeError (UnexpectedKeyword k'))"
    using bind_unexpected [of "''targevars_dynamicalt_vars''" _ "base_sig base"] by fastforce
  with a n show ?thesis
    by (simp add: PhasePlaneAnalyzer_init_def choose_analyzer_def)
qed

theorem C1_two_variables_raise_type_error_witness:
  "dict_len [(''V'', interval), (''w'', interval)] = 2 \<and>
   well_formed (NeuType hh) PNone PNone PNone \<and>
   ''targevars_dynamicalt_vars'' \<notin> set (map fst (sig_params (base_sig unit_base))) \<and>
   \<not> sig_var_kw (base_sig unit_base) \<and>
   (\<exists>k. PhasePlaneAnalyzer_init unit_base (NeuType hh)
          (PDict [(''V'', interval), (''w'', interval)]) PNone PNone PNone =
        ([Call2DAnalyzer], Inl (TypeError (UnexpectedKeyword k))))"
proof -
  have a: "dict_len [(''V'', interval), (''w'', interval)] = 2"
    by (simp add: dict_len_def)
  have b: "well_formed (NeuType hh) PNone PNone PNone"
    by (simp add: well_formed_def)
  have c: "''targevars_dynamicalt_vars'' \<notin> set (map fst (sig_params (base_sig unit_base)))"
    by (simp add: unit_base_def)
  have d: "\<not> sig_var_kw (base_sig unit_base)"
    by (simp add: unit_base_def)
  from C1_two_variables_raise_type_error [OF a b c d] a b c d show ?thesis by blast
qed

text \<open>
  C7. With three or more target variables the constructor fails and calls no analyzer
  class, so no analyzer exists and no grid is built (the event list is empty), whatever
  the other arguments are; when the other arguments are well formed, the exception is
  the \<open>UnsupportedDimensionality\<close> one of lines 154 to 156.
\<close>

theorem C7_unsupported_dimensionality:
  assumes n: "3 \<le> dict_len tv"
  shows "(\<exists>e. PhasePlaneAnalyzer_init base model (PDict tv) fixed_vars pars_update opts =
            ([], Inl e)) \<and>
    (well_formed model fixed_vars pars_update opts \<longrightarrow>
       PhasePlaneAnalyzer_init base model (PDict tv) fixed_vars pars_update opts =
         ([], Inl UnsupportedDimensionality))"
proof (intro conjI impI)
  from n show "\<exists>e. PhasePlaneAnalyzer_init base model (PDict tv) fixed_vars pars_update opts =
      ([], Inl e)"
    by (rule init_fails_many)
  assume "well_formed model fixed_vars pars_update opts"
  then obtain args where
    "check_arguments model (PDict tv) fixed_vars pars_update opts = Inr args"
    "arg_vars args = tv"
    using check_arguments_well_formed by blast
  with n show "PhasePlaneAnalyzer_init base model (PDict tv) fixed_vars pars_update opts =
      ([], Inl UnsupportedDimensionality)"
    by (simp add: PhasePlaneAnalyzer_init_def choose_analyzer_many)
qed

theorem C7_unsupported_dimensionality_witness:
  "3 \<le> dict_len [(''V'', interval), (''m'', interval), (''h'', interval)] \<and>
   well_formed (NeuType hh) PNone (PDict [(''gNa'', PNum (Fin 120))]) PNone \<and>
   PhasePlaneAnalyzer_init unit_base (NeuType hh)
     (PDict [(''V'', interval), (''m'', interval), (''h'', interval)])
     PNone (PDict [(''gNa'', PNum (Fin 120))]) PNone = ([], Inl UnsupportedDimensionality)"
proof -
  have a: "3 \<le> dict_len [(''V'', interval), (''m'', interval), (''h'', interval)]"
    by (simp add: dict_len_def)
  have b: "well_formed (NeuType hh) PNone (PDict [(''gNa'', PNum (Fin 120))]) PNone"
    by (simp add: well_formed_def hh_def)
  from C7_unsupported_dimensionality
         [OF a, of unit_base "NeuType hh" PNone "PDict [(''gNa'', PNum (Fin 120))]" PNone] a b
  show ?thesis by blast
qed

section \<open>Properties of the vector field\<close>

text \<open>
  C6. The claim: when an evaluator cannot be called for the lack of a variable,
  \<^verbatim>\<open>plot_vector_field\<close> fails with an error that names the variable. The error of lines
  245, 373 and 380 has a fixed text: at the 1D system whose evaluator lacks \<open>w\<close>, the
  text does not contain \<open>w\<close>.
\<close>

theorem C6_message_does_not_name_variable:
  "f_dx missing_w_1d (x_resolution missing_w_1d) = Inl (TypeError (MissingArguments [''w''])) \<and>
   plot_vector_field_1d missing_w_1d = Inl (ModelUseError msg_missing) \<and>
   \<not> contains msg_missing ''w''"
  by (simp add: plot_vector_field_1d_def missing_w_1d_def cubic_1d_def msg_missing_def)

text \<open>
  C6, amended. When an evaluator raises a \<^verbatim>\<open>TypeError\<close>, \<^verbatim>\<open>plot_vector_field\<close> fails, in
  1D and in 2D (for either evaluator), with the \<^verbatim>\<open>ModelUseError\<close> whose text asks to set
  the missing variables in \<^verbatim>\<open>fixed_vars\<close>; it returns no numeric result. The text is the
  same for every variable.
\<close>

theorem C6_missing_variable_error:
  "(f_dx a (x_resolution a) = Inl (TypeError t) \<longrightarrow>
      plot_vector_field_1d a = Inl (ModelUseError msg_missing)) \<and>
   (f_dx_2d b (fst (meshgrid (xs_2d b) (ys_2d b))) (snd (meshgrid (xs_2d b) (ys_2d b))) =
      Inl (TypeError t) \<longrightarrow>
      plot_vector_field_2d b line_widths = Inl (ModelUseError msg_missing)) \<and>
   (f_dx_2d b (fst (meshgrid (xs_2d b) (ys_2d b))) (snd (meshgrid (xs_2d b) (ys_2d b))) =
      Inr dx \<longrightarrow>
    f_dy_2d b (fst (meshgrid (xs_2d b) (ys_2d b))) (snd (meshgrid (xs_2d b) (ys_2d b))) =
      Inl (TypeError t) \<longrightarrow>
      plot_vector_field_2d b line_widths = Inl (ModelUseError msg_missing))"
proof (intro conjI impI)
  assume "f_dx a (x_resolution a) = Inl (TypeError t)"
  then show "plot_vector_field_1d a = Inl (ModelUseError msg_missing)"
    by (simp add: plot_vector_field_1d_def)
next
  let ?mesh = "meshgrid (xs_2d b) (ys_2d b)"
  assume "f_dx_2d b (fst ?mesh) (snd ?mesh) = Inl (TypeError t)"
  then have "evaluate (f_dx_2d b) ?mesh = Inl (ModelUseError msg_missing)"
    by (simp add: evaluate_def)
  then show "plot_vector_field_2d b line_widths = Inl (ModelUseError msg_missing)"
    by (simp add: plot_vector_field_2d_def)
next
  let ?mesh = "meshgrid (xs_2d b) (ys_2d b)"
  assume "f_dx_2d b (fst ?mesh) (snd ?mesh) = Inr dx"
    and "f_dy_2d b (fst ?mesh) (snd ?mesh) = Inl (TypeError t)"
  then have "evaluate (f_dx_2d b) ?mesh = Inr dx"
    and "evaluate (f_dy_2d b) ?mesh = Inl (ModelUseError msg_missing)"
    by (simp_all add: evaluate_def)
  then show "plot_vector_field_2d b line_widths = Inl (ModelUseError msg_missing)"
    by (simp add: plot_vector_field_2d_def)
qed

theorem C6_missing_variable_error_witness:
  "f_dx missing_w_1d (x_resolution missing_w_1d) = Inl (TypeError (MissingArguments [''w''])) \<and>
   plot_vector_field_1d missing_w_1d = Inl (ModelUseError msg_missing) \<and>
   f_dx_2d missing_w_2d (fst (meshgrid (xs_2d missing_w_2d) (ys_2d missing_w_2d)))
     (snd (meshgrid (xs_2d missing_w_2d) (ys_2d missing_w_2d))) = Inr [[Fin 1, Fin (1 / 2)]] \<and>
   f_dy_2d missing_w_2d (fst (meshgrid (xs_2d missing_w_2d) (ys_2d missing_w_2d)))
     (snd (meshgrid (xs_2d missing_w_2d) (ys_2d missing_w_2d))) =
       Inl (TypeError (MissingArguments [''w''])) \<and>
   plot_vector_field_2d missing_w_2d (Fin (1 / 2), Fin (11 / 2)) =
     Inl (ModelUseError msg_missing)"
proof -
  have a: "f_dx missing_w_1d (x_resolution missing_w_1d) =
      Inl (TypeError (MissingArguments [''w'']))"
    by (simp add: missing_w_1d_def)
  have b: "f_dx_2d missing_w_2d (fst (meshgrid (xs_2d missing_w_2d) (ys_2d missing_w_2d)))
     (snd (meshgrid (xs_2d missing_w_2d) (ys_2d missing_w_2d))) = Inr [[Fin 1, Fin (1 / 2)]]"
    by (simp add: missing_w_2d_def regular_2d_def pole_2d_def meshgrid_def)
  have c: "f_dy_2d missing_w_2d (fst (meshgrid (xs_2d missing_w_2d) (ys_2d missing_w_2d)))
     (snd (meshgrid (xs_2d missing_w_2d) (ys_2d missing_w_2d))) =
       Inl (TypeError (MissingArguments [''w'']))"
    by (simp add: missing_w_2d_def)
  from C6_missing_variable_error
         [of missing_w_1d "MissingArguments [''w'']" missing_w_2d "(Fin (1 / 2), Fin (11 / 2))"
            "[[Fin 1, Fin (1 / 2)]]"] a b c
  show ?thesis by simp
qed

text \<open>
  C3. The claim: the line widths are not rescaled whenever an entry of \<open>dx\<close> or \<open>dy\<close> is
  not finite. Line 384 tests for \<open>NaN\<close> only: at the pole of \<open>1 / x\<close> the entry of \<open>dx\<close>
  is infinite, the rescaling is applied, and the line width it computes is \<open>NaN\<close>.
\<close>

theorem C3_infinite_entry_is_rescaled:
  "plot_vector_field_2d pole_2d (Fin (1 / 2), Fin (11 / 2)) =
     Inr \<lparr> vf_dx = [[PInf]], vf_dy = [[Fin 0]], vf_linewidth = Some [[NaN]] \<rparr> \<and>
   \<not> is_finite PInf"
  by (simp add: plot_vector_field_2d_def pole_2d_def meshgrid_def evaluate_def any_nan_def
      line_width_def speed_of_def array_max_def)

text \<open>
  C3, amended. When both evaluators return, \<^verbatim>\<open>plot_vector_field\<close> skips the rescaling
  of the line widths exactly when an entry of \<open>dx\<close> or \<open>dy\<close> is \<open>NaN\<close>, and applies it
  when no entry is \<open>NaN\<close>, infinite entries included.
\<close>

theorem C3_rescaling_skipped_iff_nan:
  assumes "evaluate (f_dx_2d a) (meshgrid (xs_2d a) (ys_2d a)) = Inr dx"
    and "evaluate (f_dy_2d a) (meshgrid (xs_2d a) (ys_2d a)) = Inr dy"
  shows "(any_nan dx \<or> any_nan dy \<longrightarrow>
           plot_vector_field_2d a line_widths =
             Inr \<lparr> vf_dx = dx, vf_dy = dy, vf_linewidth = None \<rparr>) \<and>
         (\<not> any_nan dx \<and> \<not> any_nan dy \<longrightarrow>
           plot_vector_field_2d a line_widths =
             map_sum id (\<lambda>lw. \<lparr> vf_dx = dx, vf_dy = dy, vf_linewidth = Some lw \<rparr>)
               (line_width line_widths (speed_of dx dy)))"
  using assms by (auto simp: plot_vector_field_2d_def Let_def split: sum.splits)

theorem C3_rescaling_skipped_iff_nan_witness:
  "evaluate (f_dx_2d nan_2d) (meshgrid (xs_2d nan_2d) (ys_2d nan_2d)) = Inr [[NaN]] \<and>
   evaluate (f_dy_2d nan_2d) (meshgrid (xs_2d nan_2d) (ys_2d nan_2d)) = Inr [[Fin 0]] \<and>
   any_nan [[NaN]] \<and>
   plot_vector_field_2d nan_2d (Fin (1 / 2), Fin (11 / 2)) =
     Inr \<lparr> vf_dx = [[NaN]], vf_dy = [[Fin 0]], vf_linewidth = None \<rparr> \<and>
   evaluate (f_dx_2d regular_2d) (meshgrid (xs_2d regular_2d) (ys_2d regular_2d)) =
     Inr [[Fin 1, Fin (1 / 2)]] \<and>
   evaluate (f_dy_2d regular_2d) (meshgrid (xs_2d regular_2d) (ys_2d regular_2d)) =
     Inr [[Fin 0, Fin (- 3)]] \<and>
   \<not> any_nan [[Fin 1, Fin (1 / 2)]] \<and> \<not> any_nan [[Fin 0, Fin (- 3)]] \<and>
   plot_vector_field_2d regular_2d (Fin (1 / 2), Fin (11 / 2)) =
     map_sum id
       (\<lambda>lw. \<lparr> vf_dx = [[Fin 1, Fin (1 / 2)]], vf_dy = [[Fin 0, Fin (- 3)]],
               vf_linewidth = Some lw \<rparr>)
       (line_width (Fin (1 / 2), Fin (11 / 2))
          (speed_of [[Fin 1, Fin (1 / 2)]] [[Fin 0, Fin (- 3)]]))"
proof -
  have a: "evaluate (f_dx_2d nan_2d) (meshgrid (xs_2d nan_2d) (ys_2d nan_2d)) = Inr [[NaN]]"
    by (simp add: evaluate_def nan_2d_def pole_2d_def meshgrid_def)
  have b: "evaluate (f_dy_2d nan_2d) (meshgrid (xs_2d nan_2d) (ys_2d nan_2d)) = Inr [[Fin 0]]"
    by (simp add: evaluate_def nan_2d_def pole_2d_def meshgrid_def)
  have c: "any_nan [[NaN]]"
    by (simp add: any_nan_def)
  have d: "evaluate (f_dx_2d regular_2d) (meshgrid (xs_2d regular_2d) (ys_2d regular_2d)) =
     Inr [[Fin 1, Fin (1 / 2)]]"
    by (simp add: evaluate_def regular_2d_def pole_2d_def meshgrid_def)
  have e: "evaluate (f_dy_2d regular_2d) (meshgrid (xs_2d regular_2d) (ys_2d regular_2d)) =
     Inr [[Fin 0, Fin (- 3)]]"
    by (simp add: evaluate_def regular_2d_def pole_2d_def meshgrid_def)
  have g: "\<not> any_nan [[Fin 1, Fin (1 / 2)]]" "\<not> any_nan [[Fin 0, Fin (- 3)]]"
    by (simp_all add: any_nan_def)
  from C3_rescaling_skipped_iff_nan [OF a b, of "(Fin (1 / 2), Fin (11 / 2))"]
    C3_rescaling_skipped_iff_nan [OF d e, of "(Fin (1 / 2), Fin (11 / 2))"] a b c d e g
  show ?thesis by simp
qed

section \<open>Properties of the fixed points of a 1D system\<close>

lemma find_x_values_fallback:
  assumes "symbolic_stage a = Inl NotImplementedError \<or> symbolic_stage a = Inl KeyboardInterrupt"
  shows "find_x_values a = map_sum id (\<lambda>roots. PSeq (map PNum roots)) (numeric_stage a)"
  using assms by (auto simp: find_x_values_def symbolic_attempt_def)

lemma classify_one:
  "(\<exists>e. classify a [x] c0 = Inl e) \<or>
   (\<exists>t ps. c0 t = Some ps \<and> classify a [x] c0 = Inr (c0(t \<mapsto> ps @ [x])))"
  by (auto split: sum.splits option.splits)

text \<open>
  On the numeric path the three roots of the cubic are classified one by one, by the
  sign of the derivative.
\<close>

lemma numeric_path_classifies_each_root:
  "\<exists>r. plot_fixed_point_1d (cubic_1d \<lparr> symbolic_stage := Inl NotImplementedError \<rparr>) = Inr r \<and>
     fp_points r = PSeq [PNum (Fin (- 1)), PNum (Fin 0), PNum (Fin 1)] \<and>
     fp_classes r ''stable'' = Some [PNum (Fin 0)] \<and>
     fp_classes r ''unstable'' = Some [PNum (Fin (- 1)), PNum (Fin 1)]"
  by (simp add: plot_fixed_point_1d_def find_x_values_def symbolic_attempt_def cubic_1d_def
      read_options_def dict_get_def new_container_def)

text \<open>
  C2. The claim: for \<open>f(x) = x (x - 1) (x + 1)\<close> the roots \<open>-1, 0, 1\<close> are returned and
  each is classified by the sign of the derivative. Whenever the symbolic stage returns
  (the default path), line 289 wraps the value of \<^verbatim>\<open>solve_x()\<close>, a tuple when there
  are several solutions, in a one-element list: the array has one row, the loop of line
  314 runs once, and whatever the classifier is, at most one class receives one entry,
  the whole row. The three roots, two unstable and one stable, are not classified one
  by one, and the array returned is not the vector of the roots.
\<close>

theorem C2_symbolic_roots_form_one_entry:
  assumes esc: "\<not> truthy (escape_sympy_solver (options_1d a))"
    and sym: "symbolic_stage a = Inr vals"
  shows "(\<exists>e. plot_fixed_point_1d a = Inl e) \<or>
    (\<exists>t \<in> set (get_1d_classification a).
       plot_fixed_point_1d a =
         Inr \<lparr> fp_points = PSeq [solve_x vals],
               fp_classes = (new_container (get_1d_classification a))
                              (t \<mapsto> [solve_x vals]) \<rparr>)"
proof -
  from esc sym have xv: "find_x_values a = Inr (PSeq [solve_x vals])"
    by (simp add: find_x_values_def symbolic_attempt_def)
  let ?c0 = "new_container (get_1d_classification a)"
  let ?x = "solve_x vals"
  from classify_one [of a ?x ?c0] show ?thesis
  proof
    assume "\<exists>e. classify a [?x] ?c0 = Inl e"
    with xv show ?thesis by (auto simp: plot_fixed_point_1d_def)
  next
    assume "\<exists>t ps. ?c0 t = Some ps \<and> classify a [?x] ?c0 = Inr (?c0(t \<mapsto> ps @ [?x]))"
    then obtain t ps where
      t: "?c0 t = Some ps" "classify a [?x] ?c0 = Inr (?c0(t \<mapsto> ps @ [?x]))"
      by blast
    from t(1) have "t \<in> set (get_1d_classification a)" "ps = []"
      by (auto simp: new_container_def split: if_splits)
    with t xv show ?thesis by (auto simp: plot_fixed_point_1d_def)
  qed
qed

theorem C2_symbolic_roots_form_one_entry_witness:
  "\<not> truthy (escape_sympy_solver (options_1d cubic_1d)) \<and>
   symbolic_stage cubic_1d = Inr [Fin (- 1), Fin 0, Fin 1] \<and>
   solve_x [Fin (- 1), Fin 0, Fin 1] = PSeq [PNum (Fin (- 1)), PNum (Fin 0), PNum (Fin 1)] \<and>
   ((\<exists>e. plot_fixed_point_1d cubic_1d = Inl e) \<or>
    (\<exists>t \<in> set (get_1d_classification cubic_1d).
       plot_fixed_point_1d cubic_1d =
         Inr \<lparr> fp_points = PSeq [solve_x [Fin (- 1), Fin 0, Fin 1]],
               fp_classes = (new_container (get_1d_classification cubic_1d))
                              (t \<mapsto> [solve_x [Fin (- 1), Fin 0, Fin 1]]) \<rparr>))"
proof -
  have a: "\<not> truthy (escape_sympy_solver (options_1d cubic_1d))"
    by (simp add: cubic_1d_def read_options_def dict_get_def)
  have b: "symbolic_stage cubic_1d = Inr [Fin (- 1), Fin 0, Fin 1]"
    by (simp add: cubic_1d_def)
  have c: "solve_x [Fin (- 1), Fin 0, Fin 1] =
      PSeq [PNum (Fin (- 1)), PNum (Fin 0), PNum (Fin 1)]"
    by (simp add: solve_x_def)
  from C2_symbolic_roots_form_one_entry [OF a b] a b c show ?thesis by blast
qed

text \<open>
  C4. When the symbolic stage fails with \<^verbatim>\<open>NotImplementedError\<close> (an unsupported
  equation) or \<^verbatim>\<open>KeyboardInterrupt\<close> (the timeout), \<^verbatim>\<open>plot_fixed_point\<close> does not raise
  that failure: its roots are those of the numeric stage, classified one by one, and
  when the numeric stage finds no root the result is the empty array with every class
  empty.
\<close>

theorem C4_symbolic_failure_falls_back:
  assumes "symbolic_stage a = Inl NotImplementedError \<or> symbolic_stage a = Inl KeyboardInterrupt"
  shows "find_x_values a = map_sum id (\<lambda>roots. PSeq (map PNum roots)) (numeric_stage a) \<and>
    (\<forall>roots. numeric_stage a = Inr roots \<longrightarrow>
       plot_fixed_point_1d a =
         map_sum id (\<lambda>c. \<lparr> fp_points = PSeq (map PNum roots), fp_classes = c \<rparr>)
           (classify a (map PNum roots) (new_container (get_1d_classification a)))) \<and>
    (numeric_stage a = Inr [] \<longrightarrow>
       plot_fixed_point_1d a =
         Inr \<lparr> fp_points = PSeq [], fp_classes = new_container (get_1d_classification a) \<rparr>)"
  using find_x_values_fallback [OF assms]
  by (auto simp: plot_fixed_point_1d_def split: sum.splits)

theorem C4_symbolic_failure_falls_back_witness:
  "symbolic_stage timed_out_1d = Inl KeyboardInterrupt \<and> numeric_stage timed_out_1d = Inr [] \<and>
   plot_fixed_point_1d timed_out_1d =
     Inr \<lparr> fp_points = PSeq [],
           fp_classes = new_container [''stable'', ''unstable'', ''degenerate''] \<rparr>"
proof -
  have a: "symbolic_stage timed_out_1d = Inl KeyboardInterrupt"
    by (simp add: timed_out_1d_def)
  have b: "numeric_stage timed_out_1d = Inr []"
    by (simp add: timed_out_1d_def)
  have c: "get_1d_classification timed_out_1d = [''stable'', ''unstable'', ''degenerate'']"
    by (simp add: timed_out_1d_def cubic_1d_def)
  from a have "symbolic_stage timed_out_1d = Inl NotImplementedError \<or>
      symbolic_stage timed_out_1d = Inl KeyboardInterrupt" by simp
  from C4_symbolic_failure_falls_back [OF this] a b c show ?thesis by simp
qed

section \<open>Properties of the nullclines\<close>

lemma nullcline_of_cases:
  assumes "nullcline_of a y_by_x x_by_y optimizer style style' = Inr c"
  shows "traced a y_by_x x_by_y optimizer c"
  using assms
  by (cases c)
     (auto simp: nullcline_of_def method_used_def apply_f_def traced_def
       split: if_splits sum.splits exn.splits)

text \<open>
  C5. The claim: the value returned by \<^verbatim>\<open>plot_nullcline\<close> reports the solving method
  of each equation. The dictionary of lines 558 and 559 holds the coordinate sequences
  only: the system solved by sympy and the system solved by the numeric sweep return
  the same value.
\<close>

theorem C5_value_does_not_tell_method:
  "plot_nullcline symbolic_2d None = plot_nullcline numeric_2d None \<and>
   method_used (get_y_by_x_in_y_eq symbolic_2d) (get_x_by_y_in_y_eq symbolic_2d) =
     SymbolicInverseInX \<and>
   method_used (get_y_by_x_in_y_eq numeric_2d) (get_x_by_y_in_y_eq numeric_2d) =
     NumericSweep"
  by (simp add: plot_nullcline_def nullcline_of_def apply_f_def symbolic_2d_def numeric_2d_def
      pole_2d_def fail_result_def method_used_def setting_of_def get_str_def)

text \<open>
  C5, amended. The value returned by \<^verbatim>\<open>plot_nullcline\<close> is a dictionary whose keys are
  the function names of the two equations; it maps the name of the \<open>y\<close> equation, and
  the name of the \<open>x\<close> equation when the names differ, to the pair of the \<open>x\<close> and \<open>y\<close>
  coordinate sequences of its nullcline, computed by the method that applies. The
  method itself is not part of the value.
\<close>

theorem C5_value_is_coordinates_by_name:
  assumes "plot_nullcline a numerical_setting = Inr d"
  shows "dom d = {x_func_name a, y_func_name a} \<and>
    (\<exists>c. d (y_func_name a) = Some c \<and>
       traced a (get_y_by_x_in_y_eq a) (get_x_by_y_in_y_eq a)
         (get_f_optimize_y_nullcline a (coords_of a numerical_setting (y_func_name a))) c) \<and>
    (x_func_name a \<noteq> y_func_name a \<longrightarrow>
      (\<exists>c. d (x_func_name a) = Some c \<and>
         traced a (get_y_by_x_in_x_eq a) (get_x_by_y_in_x_eq a)
           (get_f_optimize_x_nullcline a (coords_of a numerical_setting (x_func_name a))) c))"
proof -
  from assms obtain cy cx sy sy' sx sx' where
    y: "nullcline_of a (get_y_by_x_in_y_eq a) (get_x_by_y_in_y_eq a)
          (get_f_optimize_y_nullcline a (coords_of a numerical_setting (y_func_name a)))
          sy sy' = Inr cy"
    and x: "nullcline_of a (get_y_by_x_in_x_eq a) (get_x_by_y_in_x_eq a)
          (get_f_optimize_x_nullcline a (coords_of a numerical_setting (x_func_name a)))
          sx sx' = Inr cx"
    and d: "d = [x_func_name a \<mapsto> cx, y_func_name a \<mapsto> cy]"
    by (auto simp: plot_nullcline_def coords_of_def Let_def split: sum.splits)
  from y have ty: "traced a (get_y_by_x_in_y_eq a) (get_x_by_y_in_y_eq a)
      (get_f_optimize_y_nullcline a (coords_of a numerical_setting (y_func_name a))) cy"
    by (rule nullcline_of_cases)
  from x have tx: "traced a (get_y_by_x_in_x_eq a) (get_x_by_y_in_x_eq a)
      (get_f_optimize_x_nullcline a (coords_of a numerical_setting (x_func_name a))) cx"
    by (rule nullcline_of_cases)
  from d ty tx show ?thesis by auto
qed

theorem C5_value_is_coordinates_by_name_witness:
  "plot_nullcline symbolic_2d None =
     Inr [''int_x'' \<mapsto> ([], []), ''int_y'' \<mapsto> ([Fin 1, Fin 2], [Fin 1, Fin 4])] \<and>
   dom [''int_x'' \<mapsto> ([], []), ''int_y'' \<mapsto> ([Fin 1, Fin 2], [Fin 1, Fin 4])] =
     {x_func_name symbolic_2d, y_func_name symbolic_2d} \<and>
   traced symbolic_2d (get_y_by_x_in_y_eq symbolic_2d) (get_x_by_y_in_y_eq symbolic_2d)
     (get_f_optimize_y_nullcline symbolic_2d (coords_of symbolic_2d None ''int_y''))
     ([Fin 1, Fin 2], [Fin 1, Fin 4])"
proof -
  have a: "plot_nullcline symbolic_2d None =
     Inr [''int_x'' \<mapsto> ([], []), ''int_y'' \<mapsto> ([Fin 1, Fin 2], [Fin 1, Fin 4])]"
    by (simp add: plot_nullcline_def nullcline_of_def apply_f_def symbolic_2d_def pole_2d_def
        fail_result_def setting_of_def get_str_def)
  have n: "y_func_name symbolic_2d = ''int_y''"
    by (simp add: symbolic_2d_def pole_2d_def)
  from C5_value_is_coordinates_by_name [OF a] a n show ?thesis by simp
qed

section \<open>Properties of the trajectories\<close>



lemma set_states_column:
  assumes "length st = j + length vs" and "\<forall>r \<in> set st. length r = 1"
  shows "set_states 0 j (map Scalar vs) st = Inr (take j st @ map (\<lambda>v. [v]) vs)"
  using assms
proof (induction vs arbitrary: j st)
  case Nil
  then show ?case by simp
next
  case (Cons v vs)
  let ?st = "st[j := (st ! j)[0 := v]]"
  from Cons.prems have j: "j < length st" by simp
  with Cons.prems have "length (st ! j) = 1" by simp
  then have row: "(st ! j)[0 := v] = [v]"
    by (cases "st ! j") auto
  have "\<forall>r \<in> set ?st. length r = 1"
    using Cons.prems(2) row by (auto dest!: subsetD [OF set_update_subset_insert])
  moreover have "length ?st = Suc j + length vs"
    using Cons.prems by simp
  ultimately have
    "set_states 0 (Suc j) (map Scalar vs) ?st = Inr (take (Suc j) ?st @ map (\<lambda>v. [v]) vs)"
    by (rule Cons.IH [rotated])
  moreover have "take (Suc j) ?st = take j st @ [[v]]"
    using j row by (simp add: take_Suc_conv_app_nth)
  ultimately show ?case by simp
qed

lemma regular_scalars: "regular (map Scalar vs)"
  by (cases vs) (simp_all add: regular_def list_all_iff)


lemma format_flat:
  assumes "vs \<noteq> []"
  shows "format_initials numpy (map Scalar vs) = Inr [Row (map Scalar vs)]"
proof -
  from assms obtain v vs' where "vs = v # vs'" by (cases vs) auto
  with regular_scalars [of vs] show ?thesis
    by (simp add: format_initials_def)
qed





text \<open>
  C10. A flat sequence of numbers, one for each target variable, is a single initial
  condition on every NumPy: the neuron group has size one, its state holds one value for
  each variable, and when the run returns, the result is exactly one trajectory (an
  exception of the run passes through).
\<close>

theorem C10_flat_sequence_is_one_condition:
  assumes "vs \<noteq> []" and "length vs = length target_vars"
  shows "get_trajectories numpy run_group target_vars (map Scalar vs) duration inputs =
     ([NeuGroupCalled 1],
      map_sum id (\<lambda>mon. [trajectory_of mon target_vars 0 (map Scalar vs)])
        (run_group 1 (zip target_vars (map (\<lambda>v. [v]) vs)) duration inputs))"
proof -
  from assms have fmt: "format_initials numpy (map Scalar vs) = Inr [Row (map Scalar vs)]"
    by (simp add: format_flat)
  have "set_states 0 0 (map Scalar vs) (replicate (length target_vars) [Fin 0]) =
      Inr (map (\<lambda>v. [v]) vs)"
    using set_states_column [of "replicate (length target_vars) [Fin 0]" 0 vs] assms by simp
  with fmt assms show ?thesis
    by (cases "run_group 1 (zip target_vars (map (\<lambda>v. [v]) vs)) duration inputs")
       (simp_all add: get_trajectories_def)
qed

theorem C10_flat_sequence_is_one_condition_witness:
  "[Fin 0, Fin 1] \<noteq> [] \<and> length [Fin 0, Fin 1] = length [''V'', ''w''] \<and>
   (\<exists>t. get_trajectories RaisesValueError idle_runner [''V'', ''w'']
          [Scalar (Fin 0), Scalar (Fin 1)] (PNum (Fin 100)) (PSeq []) =
            ([NeuGroupCalled 1], Inr [t]) \<and>
        traj_vars t = [(''V'', [Fin 0]), (''w'', [Fin 1])])"
proof -
  have a: "[Fin 0, Fin 1] \<noteq> []" "length [Fin 0, Fin 1] = length [''V'', ''w'']"
    by simp_all
  from C10_flat_sequence_is_one_condition
         [OF a, of RaisesValueError idle_runner "PNum (Fin 100)" "PSeq []"] a
  show ?thesis by (simp add: idle_runner_def trajectory_of_def)
qed

end
